theory Spec2Isabelle
  imports Main "HOL-Library.Word"
begin

section \<open>Wire data and files\<close>

text \<open>
  The client (App.tsx), the transport wrapper (P2PService.ts) and the relay
  (SignalingRoom.ts, with its route in the worker) are embedded as functions on explicit
  state. Strings hold text as its UTF-8 bytes. Timestamps (\<open>Date.now()\<close>) are left out
  of log entries.
\<close>

type_synonym byte = "8 word"

text \<open>The browser \<open>File\<close>: \<open>name\<close>, \<open>type\<close>, and what \<open>arrayBuffer()\<close> resolves to
  (\<open>Inl\<close> is the message of a rejected read).\<close>

record File =
  file_name :: string
  file_type :: string
  file_arrayBuffer :: "string + byte list"

text \<open>\<open>interface FileMetadata\<close>: the record of a file held in cloud storage.\<close>

record FileMetadata =
  filename :: string
  uploadedAt :: string
  contentType :: string
  stored_size :: int
  stored_isCompressed :: bool
  originalSize :: "int option"

text \<open>\<open>interface P2PFileMeta\<close>: the payload of a \<open>file-meta\<close> frame. \<open>size\<close> is a JSON
  number; whole numbers are modelled.\<close>

record P2PFileMeta =
  meta_name :: string
  meta_size :: int
  meta_type :: string
  meta_isCompressed :: bool

text \<open>
  A text frame after \<open>JSON.parse\<close>, by the shapes the receiver tells apart: the four
  control types with their payload present, and \<open>OtherJson\<close>, anything else that parses
  to something other than \<open>null\<close> (kept as its text).
\<close>

datatype message =
  FileMeta P2PFileMeta
| FileEnd string
| TextMsg string
| R2FileShare FileMetadata
| OtherJson string

text \<open>What \<open>onData\<close> is called with: a string that parses to a message, a string on which
  the handler's \<open>try\<close> block throws (\<open>JSON.parse\<close> fails, or the text parses to \<open>null\<close>,
  of which \<open>message.type\<close> cannot be read), an \<open>ArrayBuffer\<close>, or anything else.\<close>

datatype data =
  Json message
| Garbled string
| Binary "byte list"
| UnknownData

section \<open>Compression policy\<close>

definition endsWith :: "string \<Rightarrow> string \<Rightarrow> bool" where
  "endsWith s suffix \<longleftrightarrow>
     length suffix \<le> length s \<and> drop (length s - length suffix) s = suffix"

definition alreadyCompressedTypes :: "string list" where
  "alreadyCompressedTypes =
     [''image/jpeg'', ''image/png'', ''image/gif'', ''video/mp4'',
      ''application/zip'', ''application/gzip'', ''application/pdf'']"

definition shouldCompress :: "File \<Rightarrow> bool" where
  "shouldCompress file =
     (if endsWith (file_name file) ''.gz'' \<or> endsWith (file_name file) ''.zip''
         \<or> endsWith (file_name file) ''.rar''
      then False
      else file_type file \<notin> set alreadyCompressedTypes)"

section \<open>The sender\<close>

definition CHUNK_SIZE :: nat where
  "CHUNK_SIZE = 64 * 1024"

definition P2P_RECEIVE_TIMEOUT_MS :: nat where
  "P2P_RECEIVE_TIMEOUT_MS = 30000"

definition APP_MESSAGE_TIMEOUT_MS :: nat where
  "APP_MESSAGE_TIMEOUT_MS = 7000"

text \<open>\<open>ArrayBuffer.prototype.slice(begin, end)\<close> for non-negative indices: both ends are
  clamped to the buffer, and an end before the begin gives the empty buffer.\<close>

definition arrayBufferSlice :: "byte list \<Rightarrow> nat \<Rightarrow> nat \<Rightarrow> byte list" where
  "arrayBufferSlice buf b e = take (e - b) (drop b buf)"

subsection \<open>Double arithmetic\<close>

text \<open>
  \<open>Math.round((part / whole) * 100)\<close> is computed on doubles: the quotient is rounded to
  the nearest double, so is its product with 100, and \<open>Math.round\<close> takes the nearest
  integer of that double, halves upwards. A positive double is written as a pair
  \<open>(k, s)\<close> that stands for \<open>k / 2 ^ s\<close> (for \<open>k * 2 ^ (- s)\<close> when \<open>s\<close> is negative), with
  \<open>k\<close> of 53 bits. Integers of magnitude below \<open>2 ^ 53\<close>, which are doubles themselves,
  are what the functions are meant for.
\<close>

text \<open>The number of binary digits of \<open>n\<close>.\<close>

function bitLength :: "nat \<Rightarrow> nat" where
  "bitLength n = (if n = 0 then 0 else Suc (bitLength (n div 2)))"
  by pat_completeness auto
termination
  by (relation "measure id") auto

declare bitLength.simps [simp del]

text \<open>The integer nearest to \<open>n / d\<close>, the even one of two equally near.\<close>

definition roundHalfEven :: "nat \<Rightarrow> nat \<Rightarrow> nat" where
  "roundHalfEven n d =
     (let q = n div d; r = n mod d
      in if 2 * r < d then q else if d < 2 * r then q + 1 else if even q then q else q + 1)"

text \<open>
  The double nearest to \<open>n / d\<close>, for positive \<open>n\<close> and \<open>d\<close>: with \<open>s0\<close> as below,
  \<open>n / d * 2 ^ s0\<close> lies between \<open>2 ^ 52\<close> and \<open>2 ^ 54\<close>, so one of \<open>s0\<close> and \<open>s0 - 1\<close>
  scales the quotient to 53 bits, and there it is rounded.
\<close>

definition nearestDouble :: "nat \<Rightarrow> nat \<Rightarrow> nat \<times> int" where
  "nearestDouble n d =
     (let s0 = 53 + int (bitLength d) - int (bitLength n);
          s = (if n * 2 ^ nat s0 < 2 ^ 53 * (d * 2 ^ nat (- s0)) then s0 else s0 - 1)
      in (roundHalfEven (n * 2 ^ nat s) (d * 2 ^ nat (- s)), s))"

text \<open>The product of a positive double with 100, as a double.\<close>

fun times100 :: "nat \<times> int \<Rightarrow> nat \<times> int" where
  "times100 (k, s) = nearestDouble (100 * k * 2 ^ nat (- s)) (2 ^ nat s)"

text \<open>\<open>Math.round\<close> of the double \<open>(k, s)\<close>, taken negative if the flag says so: the floor of
  its sum with one half.\<close>

fun Math_round :: "bool \<Rightarrow> nat \<times> int \<Rightarrow> int" where
  "Math_round negative (k, s) =
     (2 * (if negative then - 1 else 1) * int (k * 2 ^ nat (- s)) + 2 ^ nat s)
       div (2 * 2 ^ nat s)"

text \<open>\<open>Math.round((part / whole) * 100)\<close> for \<open>whole \<noteq> 0\<close>.\<close>

definition roundPercent :: "int \<Rightarrow> int \<Rightarrow> int" where
  "roundPercent part whole =
     (if part = 0 then 0
      else Math_round ((part < 0) \<noteq> (whole < 0))
             (times100 (nearestDouble (nat \<bar>part\<bar>) (nat \<bar>whole\<bar>))))"

subsection \<open>Chunks\<close>

text \<open>The pako codec is not part of the repository: it is a parameter. \<open>deflate b\<close>
  is what \<open>pako.deflate(b).buffer\<close> holds and \<open>inflate b\<close> what \<open>pako.inflate(b)\<close> returns;
  \<open>Inl\<close> is the message of the error thrown.\<close>

record codec =
  deflate :: "byte list \<Rightarrow> string + byte list"
  inflate :: "byte list \<Rightarrow> string + byte list"

text \<open>What \<open>performP2PSendAndUpdateState\<close> does, in order: calls of \<open>service.send\<close>, of
  the \<open>onProgress\<close>, \<open>onComplete\<close> and \<open>onError\<close> callbacks, and of the setter of the
  progress display (\<open>UpdateSendProgress\<close> is the functional update of the loop, which
  changes the display only if it still shows this file being sent).\<close>

datatype sendEvent =
  Send data
| OnProgress int "string option"
| OnComplete
| OnError string
| SetSendProgress string int
| UpdateSendProgress string int

text \<open>The \<open>while (offset < fileSizeForSending)\<close> loop.\<close>

function sendChunks :: "string \<Rightarrow> byte list \<Rightarrow> nat \<Rightarrow> sendEvent list" where
  "sendChunks fname fileData offset =
     (if offset < length fileData then
        (let chunk = arrayBufferSlice fileData offset (offset + CHUNK_SIZE);
             offset' = offset + length chunk;
             progress = roundPercent (int offset') (int (length fileData))
         in [Send (Binary chunk), OnProgress progress None, UpdateSendProgress fname progress]
            @ sendChunks fname fileData offset')
      else [])"
  by pat_completeness auto
termination
  by (relation "measure (\<lambda>(fname, fileData, offset). length fileData - offset)")
     (auto simp: arrayBufferSlice_def CHUNK_SIZE_def)

declare sendChunks.simps [simp del]

definition prepareData :: "codec \<Rightarrow> File \<Rightarrow> string + (byte list \<times> bool)" where
  "prepareData c file =
     (case file_arrayBuffer file of
        Inl e \<Rightarrow> Inl (''File processing/compression error: '' @ e)
      | Inr fileBuffer \<Rightarrow>
          (if shouldCompress file then
             (case deflate c fileBuffer of
                Inl e \<Rightarrow> Inl (''File processing/compression error: '' @ e)
              | Inr z \<Rightarrow> Inr (z, True))
           else Inr (fileBuffer, False)))"

definition performP2PSendAndUpdateState :: "codec \<Rightarrow> File \<Rightarrow> sendEvent list" where
  "performP2PSendAndUpdateState c file =
     [SetSendProgress (file_name file) 0,
      OnProgress 0 (Some (''Preparing to send '' @ file_name file @ '' via P2P...''))] @
     (if shouldCompress file
      then [OnProgress (- 1) (Some (''Compressing '' @ file_name file @ ''...''))]
      else []) @
     (case prepareData c file of
        Inl errorMsg \<Rightarrow> [OnError (''Error sending P2P file: '' @ errorMsg)]
      | Inr (fileDataForSending, isCompressedForP2P) \<Rightarrow>
          [Send (Json (FileMeta \<lparr>meta_name = file_name file,
                                 meta_size = int (length fileDataForSending),
                                 meta_type = (if file_type file = [] then ''application/octet-stream''
                                              else file_type file),
                                 meta_isCompressed = isCompressedForP2P\<rparr>)),
           OnProgress 0 (Some (''Sending metadata for '' @ file_name file @ ''...'')),
           OnProgress 0 (Some (''Sending '' @ file_name file @ '' in chunks...''))]
          @ sendChunks (file_name file) fileDataForSending 0
          @ [Send (Json (FileEnd (file_name file))), OnComplete])"

text \<open>The frames among the events, and the percentages reported after chunks.\<close>

fun sends :: "sendEvent list \<Rightarrow> data list" where
  "sends [] = []"
| "sends (Send d # es) = d # sends es"
| "sends (_ # es) = sends es"

fun chunkReports :: "sendEvent list \<Rightarrow> int list" where
  "chunkReports [] = []"
| "chunkReports (OnProgress p None # es) = p # chunkReports es"
| "chunkReports (_ # es) = chunkReports es"

fun binaries :: "data list \<Rightarrow> byte list list" where
  "binaries [] = []"
| "binaries (Binary b # ds) = b # binaries ds"
| "binaries (_ # ds) = binaries ds"

section \<open>The transport wrapper (P2PService)\<close>

datatype readyState = CONNECTING | OPEN | CLOSING | CLOSED

text \<open>
  The two private fields of a \<open>P2PService\<close>: \<open>peer\<close>, the simple-peer instance (by its
  \<open>connected\<close> flag) or \<open>null\<close>, and \<open>ws\<close>, the signaling socket (by its ready state) or
  \<open>null\<close>. The calls a method makes on them and on the console are returned in order.
\<close>

record P2PService =
  peer :: "bool option"
  ws :: "readyState option"

datatype serviceCall =
  ConsoleLog string
| ConsoleWarn string
| PeerSend data
| PeerDestroy
| WsClose

definition P2PService_send :: "data \<Rightarrow> P2PService \<Rightarrow> serviceCall list" where
  "P2PService_send d svc =
     (if peer svc = Some True then [PeerSend d]
      else [ConsoleWarn ''P2PService: Cannot send data, peer not connected.''])"

text \<open>How a call ends: it returns, or it throws an error of this message.\<close>

datatype outcome = Returns | Throws string

text \<open>
  simple-peer and the browser's \<open>WebSocket\<close> are not part of the repository: whether
  \<open>peer.destroy()\<close> and \<open>ws.close()\<close> throw, on an object in a given state, is a parameter
  (the message of the error, if any).
\<close>

record library =
  peerDestroyThrows :: "bool \<Rightarrow> string option"
  wsCloseThrows :: "readyState \<Rightarrow> string option"

text \<open>The second half of \<open>destroy()\<close>: \<open>if (this.ws) { this.ws.close(); this.ws = null; }\<close>,
  after the calls made so far.\<close>

definition closeSignaling :: "library \<Rightarrow> serviceCall list \<Rightarrow> P2PService
    \<Rightarrow> outcome \<times> P2PService \<times> serviceCall list" where
  "closeSignaling lib calls svc =
     (case ws svc of
        None \<Rightarrow> (Returns, svc, calls)
      | Some state \<Rightarrow>
          (case wsCloseThrows lib state of
             Some e \<Rightarrow> (Throws e, svc, calls @ [WsClose])
           | None \<Rightarrow> (Returns, svc\<lparr>ws := None\<rparr>, calls @ [WsClose])))"

text \<open>\<open>destroy()\<close>. It has no \<open>try\<close>: an error thrown by \<open>peer.destroy()\<close> ends it before
  \<open>this.peer = null\<close>, one thrown by \<open>ws.close()\<close> before \<open>this.ws = null\<close>.\<close>

definition P2PService_destroy :: "library \<Rightarrow> P2PService
    \<Rightarrow> outcome \<times> P2PService \<times> serviceCall list" where
  "P2PService_destroy lib svc =
     (case peer svc of
        None \<Rightarrow> closeSignaling lib [ConsoleLog ''P2PService: Destroying...''] svc
      | Some isConnected \<Rightarrow>
          (case peerDestroyThrows lib isConnected of
             Some e \<Rightarrow> (Throws e, svc, [ConsoleLog ''P2PService: Destroying...'', PeerDestroy])
           | None \<Rightarrow>
               closeSignaling lib [ConsoleLog ''P2PService: Destroying...'', PeerDestroy]
                 (svc\<lparr>peer := None\<rparr>)))"

text \<open>The frames a run of the sender puts on the data channel of service \<open>svc\<close>. The
  sender has no suspension point after its first \<open>send\<close>, so the service is the same at
  every call.\<close>

fun onWire :: "serviceCall list \<Rightarrow> data list" where
  "onWire [] = []"
| "onWire (PeerSend d # cs) = d # onWire cs"
| "onWire (_ # cs) = onWire cs"

definition wire :: "P2PService \<Rightarrow> sendEvent list \<Rightarrow> data list" where
  "wire svc evs = concat (map (\<lambda>d. onWire (P2PService_send d svc)) (sends evs))"

section \<open>The client state\<close>

text \<open>
  \<open>App\<close> is a function component. Each render binds its state variables to constants,
  and every function written in the component is a closure of the render that made it:
  it reads the state variables as that render saw them and the refs as they are now, and
  its setters write the state that the next render will see. A function called from the
  page belongs to the latest render. The callbacks handed to a \<open>P2PService\<close> or to
  \<open>setTimeout\<close> keep the render that created them: \<open>P2PService\<close> stores its options once
  and calls those.
\<close>

datatype p2pContext = manual | share_flow_receiver

datatype AppMessageType = info | success | error

record OverallAppMessage =
  msg_text :: string
  msg_type :: AppMessageType

datatype logSender = me | peer_side | system

text \<open>The text of a log entry: \<open>ReceivingFile ctx m\<close> stands for the line
  \<open>System (ctx): Receiving file ...\<close> printed from the descriptor \<open>m\<close>, and \<open>PeerJson ctx v\<close>
  for \<open>Peer (ctx): \<close> followed by \<open>JSON.stringify\<close> of the message \<open>v\<close>.\<close>

datatype logData =
  Plain string
| ReceivingFile p2pContext P2PFileMeta
| PeerJson p2pContext message

record P2PLogMessage =
  log_data :: logData
  log_sender :: logSender

text \<open>A JavaScript number as \<open>Math.round\<close> returns it here.\<close>

datatype jsNumber = Finite int | Infinity | NaN

datatype direction = send_dir | receive_dir

record TransferProgress =
  tp_type :: direction
  tp_filename :: string
  tp_progress :: jsNumber

text \<open>A pending receive timer: its delay in milliseconds and the two arguments its
  callback passes to \<open>resetP2PReceiveStates\<close>.\<close>

record receiveTimer =
  rt_delay :: nat
  rt_message :: string
  rt_context :: p2pContext

datatype item = LocalFile File | CloudFile FileMetadata

text \<open>
  The values \<open>shareFlowStep\<close> takes: those of the type \<open>UnifiedShareFlowStep\<close> and the
  three further strings that \<open>executeShareAttempt\<close> assigns or tests
  (\<open>p2p_attempt\<close>, \<open>p2p_r2_pointer_attempt\<close>, \<open>p2p_r2_pointer_sent\<close>).
\<close>

datatype UnifiedShareFlowStep =
  idle
| awaiting_room_id
| p2p_connect_attempt
| p2p_connected_for_action
| p2p_direct_transfer
| p2p_r2_pointer_send
| p2p_direct_transfer_failed_offer_r2
| r2_fallback_upload
| share_complete_success
| share_failed
| p2p_attempt
| p2p_r2_pointer_attempt
| p2p_r2_pointer_sent

datatype connectionStatus = disconnected | connecting | connected | failed

text \<open>
  What the component does to the world outside its state, in order: a download handed to
  the browser (file name, MIME type, bytes), console output, the creation of a
  \<open>P2PService\<close> (handle, room, initiator), calls of its \<open>destroy\<close>, and the start of a
  storage download.
\<close>

datatype effect =
  Download string string "byte list"
| Console string
| NewP2PService nat string bool
| ServiceDestroy nat
| R2DownloadStarted FileMetadata

text \<open>The state variables of \<open>App\<close> that the handlers below use: what one render sees. A
  \<open>P2PService\<close> object is a handle (a number).\<close>

record render =
  manualP2PService :: "nat option"
  manualP2PRoomIdInput :: string
  manualP2PCurrentRoomId :: "string option"
  manualP2PConnectionStatus :: connectionStatus
  manualP2PReceivedMessages :: "P2PLogMessage list"
  p2pFileTransferProgress :: "TransferProgress option"
  p2pReceivingFileMeta :: "P2PFileMeta option"
  p2pReceivedFileChunks :: "byte list list"
  overallAppMessage :: "OverallAppMessage option"
  isDownloadingR2 :: bool
  itemToShare :: "item option"
  shareTargetRoomIdInput :: string
  shareFlowStep :: UnifiedShareFlowStep
  shareP2PServiceInstance :: "nat option"

text \<open>
  The component between two events: the state variables as the latest render sees them,
  the three timer refs, the next unused service handle, for each service the render
  whose closures it was built with, and the effects so far. The code passes the value of
  a timer ref to \<open>clearTimeout\<close> and does nothing else with it, so a ref is modelled by
  the timer that is pending under it, \<open>None\<close> when there is none: for the message timer
  the text it would clear and its delay, for the connect timer its delay.
\<close>

record app = render +
  appMessageTimeoutRef :: "(string \<times> nat) option"
  p2pReceiveTimeoutIdRef :: "receiveTimer option"
  shareP2PTimeoutIdRef :: "nat option"
  nextService :: nat
  builtWith :: "nat \<Rightarrow> render option"
  effects :: "effect list"

text \<open>The render of a state: what a closure made now keeps.\<close>

definition snapshot :: "app \<Rightarrow> render" where
  "snapshot s =
     \<lparr>manualP2PService = manualP2PService s,
      manualP2PRoomIdInput = manualP2PRoomIdInput s,
      manualP2PCurrentRoomId = manualP2PCurrentRoomId s,
      manualP2PConnectionStatus = manualP2PConnectionStatus s,
      manualP2PReceivedMessages = manualP2PReceivedMessages s,
      p2pFileTransferProgress = p2pFileTransferProgress s,
      p2pReceivingFileMeta = p2pReceivingFileMeta s,
      p2pReceivedFileChunks = p2pReceivedFileChunks s,
      overallAppMessage = overallAppMessage s,
      isDownloadingR2 = isDownloadingR2 s,
      itemToShare = itemToShare s,
      shareTargetRoomIdInput = shareTargetRoomIdInput s,
      shareFlowStep = shareFlowStep s,
      shareP2PServiceInstance = shareP2PServiceInstance s\<rparr>"

section \<open>The receiver\<close>

text \<open>\<open>setAppMessageFx(text, type, duration)\<close>: the pending auto-clear timer is cancelled,
  and a new one (the text it would clear, its delay) is armed for a positive duration of
  a message that is not an error. It reads a ref and calls setters only.\<close>

definition setAppMessageFx :: "string \<Rightarrow> AppMessageType \<Rightarrow> nat \<Rightarrow> app \<Rightarrow> app" where
  "setAppMessageFx text ty duration s =
     s\<lparr>overallAppMessage := Some \<lparr>msg_text = text, msg_type = ty\<rparr>,
       appMessageTimeoutRef := (if duration > 0 \<and> ty \<noteq> error then Some (text, duration) else None)\<rparr>"

definition contextName :: "p2pContext \<Rightarrow> string" where
  "contextName ctx = (case ctx of manual \<Rightarrow> ''manual'' | share_flow_receiver \<Rightarrow> ''share_flow_receiver'')"

text \<open>\<open>setManualP2PReceivedMessages(prev => [...prev, entry])\<close>: a functional update, on the
  log as it is now.\<close>

definition addLog :: "logData \<Rightarrow> logSender \<Rightarrow> app \<Rightarrow> app" where
  "addLog d who s =
     s\<lparr>manualP2PReceivedMessages :=
         manualP2PReceivedMessages s @ [\<lparr>log_data = d, log_sender = who\<rparr>]\<rparr>"

text \<open>\<open>resetP2PReceiveStates\<close> reads a ref and calls setters only.\<close>

definition resetP2PReceiveStates :: "string option \<Rightarrow> p2pContext option \<Rightarrow> app \<Rightarrow> app" where
  "resetP2PReceiveStates errorMessage ctx s =
     (let s1 = s\<lparr>p2pReceiveTimeoutIdRef := None, p2pReceivingFileMeta := None,
                 p2pReceivedFileChunks := [], p2pFileTransferProgress := None\<rparr>
      in case errorMessage of
           None \<Rightarrow> s1
         | Some e \<Rightarrow>
             if e = [] then s1
             else setAppMessageFx e error 0
                    (if ctx = Some manual
                     then addLog (Plain (''System (manual): '' @ e)) system s1
                     else s1))"

definition mathRoundPercent :: "int \<Rightarrow> int \<Rightarrow> jsNumber" where
  "mathRoundPercent part whole =
     (if whole = 0 then (if part = 0 then NaN else Infinity)
      else Finite (roundPercent part whole))"

text \<open>\<open>currentP2PService\<close>, from the state variables of the handler's render.\<close>

definition currentP2PService :: "p2pContext \<Rightarrow> render \<Rightarrow> nat option" where
  "currentP2PService ctx r =
     (case ctx of manual \<Rightarrow> manualP2PService r | share_flow_receiver \<Rightarrow> shareP2PServiceInstance r)"

text \<open>The \<open>file-meta\<close> branch: it reads the timer ref and the frame only.\<close>

definition onFileMeta :: "P2PFileMeta \<Rightarrow> p2pContext \<Rightarrow> app \<Rightarrow> app" where
  "onFileMeta payload ctx s =
     (addLog (ReceivingFile ctx payload) system
        (s\<lparr>p2pReceivingFileMeta := Some payload,
           p2pReceivedFileChunks := [],
           p2pFileTransferProgress :=
             Some \<lparr>tp_type = receive_dir, tp_filename = meta_name payload, tp_progress = Finite 0\<rparr>\<rparr>))
     \<lparr>p2pReceiveTimeoutIdRef :=
        Some \<lparr>rt_delay = P2P_RECEIVE_TIMEOUT_MS,
              rt_message = ''P2P file transfer for '' @ meta_name payload @ '' timed out.'',
              rt_context = ctx\<rparr>\<rparr>"

text \<open>The end of the \<open>file-end\<close> branch: the download is handed to the browser, logged and
  announced, and the receive state is cleared.\<close>

definition deliver :: "P2PFileMeta \<Rightarrow> byte list \<Rightarrow> p2pContext \<Rightarrow> app \<Rightarrow> app" where
  "deliver currentReceivingFile finalBlob ctx s =
     resetP2PReceiveStates None (Some ctx)
       (setAppMessageFx (''P2P File '' @ meta_name currentReceivingFile @ '' downloaded.'') success
          APP_MESSAGE_TIMEOUT_MS
          (addLog (Plain (''System ('' @ contextName ctx @ ''): File '' @ meta_name currentReceivingFile
                          @ '' received & download started.'')) system
             (s\<lparr>effects := effects s @
                   [Download (meta_name currentReceivingFile) (meta_type currentReceivingFile) finalBlob]\<rparr>)))"

text \<open>
  The \<open>file-end\<close> branch, entered with the descriptor of the handler's render when the
  names match. The blob is made of the chunk list of that render,
  \<open>new Blob(p2pReceivedFileChunks)\<close>, their concatenation; reading it back, the one
  suspension point of the branch, is taken to complete before another event is handled.
\<close>

definition onFileEnd :: "codec \<Rightarrow> P2PFileMeta \<Rightarrow> p2pContext \<Rightarrow> render \<Rightarrow> app \<Rightarrow> app" where
  "onFileEnd c currentReceivingFile ctx r s =
     (let s1 = setAppMessageFx (''P2P File '' @ meta_name currentReceivingFile
                                @ '' chunks received. Processing...'') info 0
                 (s\<lparr>p2pReceiveTimeoutIdRef := None\<rparr>);
          fullFileBlob = concat (p2pReceivedFileChunks r)
      in if meta_isCompressed currentReceivingFile then
           (let s2 = setAppMessageFx (''Decompressing P2P file '' @ meta_name currentReceivingFile
                                      @ ''...'') info 0 s1
            in case inflate c fullFileBlob of
                 Inl e \<Rightarrow>
                   resetP2PReceiveStates
                     (Some (''Error decompressing file '' @ meta_name currentReceivingFile @ '': '' @ e))
                     (Some ctx) s2
               | Inr decompressed \<Rightarrow>
                   deliver currentReceivingFile decompressed ctx
                     (setAppMessageFx (''P2P file '' @ meta_name currentReceivingFile
                                       @ '' decompressed.'') success APP_MESSAGE_TIMEOUT_MS s2))
         else deliver currentReceivingFile fullFileBlob ctx s1)"

text \<open>The part of \<open>handleDownloadR2\<close> that runs before its first suspension point.\<close>

definition handleDownloadR2 :: "FileMetadata \<Rightarrow> app \<Rightarrow> app" where
  "handleDownloadR2 fileMeta s =
     (setAppMessageFx (''Requesting Cloud download for '' @ filename fileMeta @ ''...'') info 0
        (s\<lparr>isDownloadingR2 := True\<rparr>))
     \<lparr>effects := effects s @ [R2DownloadStarted fileMeta]\<rparr>"

text \<open>The branches of a parsed message. \<open>p2pReceivingFileMeta\<close> is the constant of the
  handler's render \<open>r\<close>.\<close>

definition onMessage :: "codec \<Rightarrow> message \<Rightarrow> p2pContext \<Rightarrow> render \<Rightarrow> app \<Rightarrow> app" where
  "onMessage c m ctx r s =
     (case m of
        FileMeta payload \<Rightarrow> onFileMeta payload ctx s
      | FileEnd n \<Rightarrow>
          (case p2pReceivingFileMeta r of
             None \<Rightarrow> addLog (PeerJson ctx m) peer_side s
           | Some active \<Rightarrow>
               if n = meta_name active then onFileEnd c active ctx r s
               else addLog (PeerJson ctx m) peer_side s)
      | TextMsg t \<Rightarrow> addLog (Plain t) peer_side s
      | R2FileShare r2Metadata \<Rightarrow>
          handleDownloadR2 r2Metadata
            (addLog (Plain (''Peer is sharing a cloud file: '' @ filename r2Metadata
                            @ ''. Starting download...'')) system s)
      | OtherJson v \<Rightarrow> addLog (PeerJson ctx m) peer_side s)"

text \<open>The \<open>ArrayBuffer\<close> branch: the descriptor and the chunk list are the constants of the
  handler's render \<open>r\<close>, the timer ref is read as it is now.\<close>

definition onChunk :: "byte list \<Rightarrow> p2pContext \<Rightarrow> render \<Rightarrow> app \<Rightarrow> app" where
  "onChunk buf ctx r s =
     (case p2pReceivingFileMeta r of
        Some active \<Rightarrow>
          (let currentChunks = p2pReceivedFileChunks r @ [buf];
               currentSize = int (sum_list (map length currentChunks))
           in s\<lparr>p2pReceivedFileChunks := currentChunks,
                p2pFileTransferProgress :=
                  Some \<lparr>tp_type = receive_dir, tp_filename = meta_name active,
                        tp_progress = mathRoundPercent currentSize (meta_size active)\<rparr>,
                p2pReceiveTimeoutIdRef :=
                  Some (if currentSize < meta_size active
                        then \<lparr>rt_delay = P2P_RECEIVE_TIMEOUT_MS,
                              rt_message = ''P2P file transfer for '' @ meta_name active
                                           @ '' timed out waiting for more chunks.'',
                              rt_context = ctx\<rparr>
                        else \<lparr>rt_delay = P2P_RECEIVE_TIMEOUT_MS div 2,
                              rt_message = ''P2P file transfer for '' @ meta_name active
                                           @ '' timed out waiting for file-end message.'',
                              rt_context = ctx\<rparr>)\<rparr>)
      | None \<Rightarrow>
          s\<lparr>effects := effects s @
               [Console (''P2P ('' @ contextName ctx
                         @ ''): Received ArrayBuffer chunk but no file metadata is set.'')]\<rparr>)"

text \<open>\<open>commonP2POnDataHandler(data, p2pContext)\<close> as the closure of render \<open>r\<close>, run on the
  state \<open>s\<close>.\<close>

definition commonP2POnDataHandler :: "codec \<Rightarrow> data \<Rightarrow> p2pContext \<Rightarrow> render \<Rightarrow> app \<Rightarrow> app" where
  "commonP2POnDataHandler c d ctx r s =
     (if currentP2PService ctx r = None then s
      else case d of
             Json m \<Rightarrow> onMessage c m ctx r s
           | Garbled raw \<Rightarrow> addLog (Plain raw) peer_side s
           | Binary buf \<Rightarrow> onChunk buf ctx r s
           | UnknownData \<Rightarrow>
               s\<lparr>effects := effects s @
                    [Console (''P2P ('' @ contextName ctx @ ''): Received unknown data type:'')]\<rparr>)"

text \<open>The expiry of the pending receive timer runs its callback.\<close>

definition receiveTimeoutFires :: "app \<Rightarrow> app" where
  "receiveTimeoutFires s =
     (case p2pReceiveTimeoutIdRef s of
        None \<Rightarrow> s
      | Some t \<Rightarrow> resetP2PReceiveStates (Some (rt_message t)) (Some (rt_context t)) s)"

text \<open>The expiry of the pending auto-clear timer: the message is cleared if it is still the
  one the timer was armed for.\<close>

definition appMessageTimeoutFires :: "app \<Rightarrow> app" where
  "appMessageTimeoutFires s =
     (case appMessageTimeoutRef s of
        None \<Rightarrow> s
      | Some (text, duration) \<Rightarrow>
          s\<lparr>overallAppMessage :=
               (case overallAppMessage s of
                  None \<Rightarrow> None
                | Some shown \<Rightarrow> if msg_text shown = text then None else Some shown),
            appMessageTimeoutRef := None\<rparr>)"

section \<open>The manual transport\<close>

text \<open>
  \<open>String.prototype.trim\<close> removes the white space and line terminators of ECMAScript
  from both ends. In UTF-8 these are the six ASCII characters U+0009 to U+000D and
  U+0020, and U+00A0, U+1680, U+2000 to U+200A, U+2028, U+2029, U+202F, U+205F, U+3000
  and U+FEFF.
\<close>

definition whiteSpace :: "string list" where
  "whiteSpace =
     [[CHR 0x09], [CHR 0x0A], [CHR 0x0B], [CHR 0x0C], [CHR 0x0D], [CHR 0x20],
      [CHR 0xC2, CHR 0xA0],
      [CHR 0xE1, CHR 0x9A, CHR 0x80],
      [CHR 0xE2, CHR 0x80, CHR 0x80], [CHR 0xE2, CHR 0x80, CHR 0x81],
      [CHR 0xE2, CHR 0x80, CHR 0x82], [CHR 0xE2, CHR 0x80, CHR 0x83],
      [CHR 0xE2, CHR 0x80, CHR 0x84], [CHR 0xE2, CHR 0x80, CHR 0x85],
      [CHR 0xE2, CHR 0x80, CHR 0x86], [CHR 0xE2, CHR 0x80, CHR 0x87],
      [CHR 0xE2, CHR 0x80, CHR 0x88], [CHR 0xE2, CHR 0x80, CHR 0x89],
      [CHR 0xE2, CHR 0x80, CHR 0x8A],
      [CHR 0xE2, CHR 0x80, CHR 0xA8], [CHR 0xE2, CHR 0x80, CHR 0xA9],
      [CHR 0xE2, CHR 0x80, CHR 0xAF],
      [CHR 0xE2, CHR 0x81, CHR 0x9F],
      [CHR 0xE3, CHR 0x80, CHR 0x80],
      [CHR 0xEF, CHR 0xBB, CHR 0xBF]]"

text \<open>The string without the words of \<open>spaces\<close> that it begins with.\<close>

function stripStart :: "string list \<Rightarrow> string \<Rightarrow> string" where
  "stripStart spaces s =
     (case List.find (\<lambda>w. w \<noteq> [] \<and> take (length w) s = w) spaces of
        None \<Rightarrow> s
      | Some w \<Rightarrow> stripStart spaces (drop (length w) s))"
  by pat_completeness auto
termination
proof (relation "measure (\<lambda>(spaces, s). length s)")
  show "wf (measure (\<lambda>(spaces, s). length s))"
    by simp
next
  fix spaces :: "string list" and s w :: string
  assume "List.find (\<lambda>w. w \<noteq> [] \<and> take (length w) s = w) spaces = Some w"
  then have "w \<noteq> []" and "take (length w) s = w"
    by (auto simp: find_Some_iff)
  then have "s \<noteq> []"
    by auto
  with \<open>w \<noteq> []\<close> show "((spaces, drop (length w) s), (spaces, s)) \<in> measure (\<lambda>(spaces, s). length s)"
    by simp
qed

declare stripStart.simps [simp del]

definition trim :: "string \<Rightarrow> string" where
  "trim s = rev (stripStart (map rev whiteSpace) (rev (stripStart whiteSpace s)))"

text \<open>\<open>a || b\<close> on a string that may be \<open>null\<close>.\<close>

definition orElse :: "string option \<Rightarrow> string \<Rightarrow> string" where
  "orElse a b = (case a of None \<Rightarrow> b | Some x \<Rightarrow> if x = [] then b else x)"

text \<open>
  \<open>startManualP2P(isInitiator)\<close> of render \<open>r\<close>. The callbacks of the new service are
  closures of \<open>r\<close> as well: it is recorded as the render the service was built with.
\<close>

definition startManualP2P :: "bool \<Rightarrow> render \<Rightarrow> app \<Rightarrow> app" where
  "startManualP2P isInitiator r s =
     (if trim (manualP2PRoomIdInput r) = [] then
        setAppMessageFx ''Please enter a Room ID for manual P2P.'' error APP_MESSAGE_TIMEOUT_MS s
      else
        (let s1 = (case manualP2PService r of
                     None \<Rightarrow> s
                   | Some previous \<Rightarrow> s\<lparr>effects := effects s @ [ServiceDestroy previous]\<rparr>);
             s2 = s1\<lparr>manualP2PService := None,
                     manualP2PCurrentRoomId := Some (manualP2PRoomIdInput r),
                     manualP2PConnectionStatus := connecting,
                     manualP2PReceivedMessages := []\<rparr>;
             s3 = setAppMessageFx
                    (''Manual P2P: Attempting to '' @ (if isInitiator then ''create'' else ''join'')
                     @ '' room '' @ [CHR 0x27] @ manualP2PRoomIdInput r @ [CHR 0x27] @ ''...'')
                    info 0 s2;
             s4 = resetP2PReceiveStates None (Some manual) s3;
             service = nextService s4
         in s4\<lparr>manualP2PService := Some service,
                nextService := service + 1,
                builtWith := (builtWith s4)(service \<mapsto> r),
                effects := effects s4 @ [NewP2PService service (manualP2PRoomIdInput r) isInitiator]\<rparr>))"

text \<open>The \<open>onConnect\<close>, \<open>onError\<close> and \<open>onClose\<close> callbacks of the service \<open>service\<close> built
  with render \<open>r\<close>. \<open>message\<close> is \<open>err.message\<close>.\<close>

definition manualOnConnect :: "render \<Rightarrow> app \<Rightarrow> app" where
  "manualOnConnect r s =
     setAppMessageFx
       (''Manual P2P: Connected to room '' @ [CHR 0x27]
        @ orElse (manualP2PCurrentRoomId r) (manualP2PRoomIdInput r) @ [CHR 0x27])
       success APP_MESSAGE_TIMEOUT_MS
       (addLog (Plain ''Manual P2P Connected!'') system
          (s\<lparr>manualP2PConnectionStatus := connected\<rparr>))"

definition manualOnError :: "nat \<Rightarrow> render \<Rightarrow> string \<Rightarrow> app \<Rightarrow> app" where
  "manualOnError service r message s =
     (let errorText = ''Manual P2P Error: '' @ message @ ''.'';
          s1 = setAppMessageFx errorText error 0
                 (addLog (Plain errorText) system
                    (s\<lparr>effects := effects s @ [Console ''Manual P2P Error:''],
                       manualP2PConnectionStatus := failed\<rparr>))
      in if manualP2PService r = Some service then s1\<lparr>manualP2PService := None\<rparr> else s1)"

definition manualOnClose :: "nat \<Rightarrow> render \<Rightarrow> app \<Rightarrow> app" where
  "manualOnClose service r s =
     (let s1 = setAppMessageFx
                 (''Manual P2P: Disconnected from room '' @ [CHR 0x27]
                  @ orElse (manualP2PCurrentRoomId r) (manualP2PRoomIdInput r) @ [CHR 0x27])
                 info APP_MESSAGE_TIMEOUT_MS
                 (addLog (Plain ''Manual P2P Disconnected.'') system
                    (s\<lparr>manualP2PConnectionStatus := disconnected\<rparr>));
          s2 = (if manualP2PService r = Some service then s1\<lparr>manualP2PService := None\<rparr> else s1)
      in resetP2PReceiveStates None (Some manual) s2)"

section \<open>The share orchestrator\<close>

text \<open>
  The component declares no \<open>setShareFlowMessage\<close>: the declaration of that state variable
  is commented out. Evaluating the name throws a \<open>ReferenceError\<close>, and the function that
  does so ends there; the state updates it had requested before stay requested. A function
  here returns how it ended, with the state. (The markup reads the equally undeclared
  \<open>shareFlowMessage\<close>; of the markup only the conditions under which a control is shown
  and enabled are modelled.)
\<close>

definition referenceError :: outcome where
  "referenceError = Throws ''setShareFlowMessage is not defined''"

text \<open>\<open>initiateShareProcess(item)\<close>: its third statement calls \<open>setShareFlowMessage\<close>.\<close>

definition initiateShareProcess :: "item \<Rightarrow> app \<Rightarrow> outcome \<times> app" where
  "initiateShareProcess it s =
     (referenceError, s\<lparr>itemToShare := Some it, shareTargetRoomIdInput := []\<rparr>)"

text \<open>
  \<open>executeShareAttempt(item, targetRoomId)\<close> of render \<open>r\<close>; an \<open>async\<close> function, whose
  throwing is the rejection of its promise. Each of its paths calls \<open>setShareFlowMessage\<close>:
  as the first statement of its two guards, and otherwise after the previous service has
  been destroyed, the connect timer cleared and the step set, before the receive state is
  reset and before any service or timer is created.
\<close>

definition executeShareAttempt :: "item option \<Rightarrow> string \<Rightarrow> render \<Rightarrow> app \<Rightarrow> outcome \<times> app" where
  "executeShareAttempt shared targetRoomId r s =
     (case shared of
        None \<Rightarrow> (referenceError, s)
      | Some it \<Rightarrow>
          if trim targetRoomId = [] then (referenceError, s)
          else
            (let s1 = (case shareP2PServiceInstance r of
                         None \<Rightarrow> s
                       | Some previous \<Rightarrow> s\<lparr>effects := effects s @ [ServiceDestroy previous]\<rparr>);
                 s2 = s1\<lparr>shareP2PTimeoutIdRef := None\<rparr>;
                 initialStep = (case it of LocalFile f \<Rightarrow> p2p_attempt
                                         | CloudFile m \<Rightarrow> p2p_r2_pointer_attempt)
             in (referenceError, s2\<lparr>shareFlowStep := initialStep\<rparr>)))"

text \<open>
  The callback that \<open>executeShareAttempt\<close> writes for its connect timer, for the service
  \<open>service\<close> and as a closure of render \<open>r\<close>: the service instance and the step it tests
  are those of \<open>r\<close>.
\<close>

definition connectTimeoutCallback :: "nat \<Rightarrow> render \<Rightarrow> app \<Rightarrow> outcome \<times> app" where
  "connectTimeoutCallback service r s =
     (if shareP2PServiceInstance r = Some service
         \<and> (shareFlowStep r = p2p_attempt \<or> shareFlowStep r = p2p_connected_for_action
              \<or> shareFlowStep r = p2p_r2_pointer_attempt)
      then (referenceError, s)
      else (Returns, s\<lparr>shareP2PTimeoutIdRef := None\<rparr>))"

section \<open>Events\<close>

text \<open>
  What happens to the component, one event at a time. The user's events are those the
  page offers: typing a room id, the two start buttons of the manual section (one event,
  with the initiator flag), choosing a stored file to share, typing the room to share
  with, and the Start Share button. A service's events name the service. The two timers
  of the receiver expire.
\<close>

datatype event =
  TypeRoomId string
| StartManualP2P bool
| PeerConnects nat
| ServiceErrors nat string
| PeerCloses nat
| DataArrives nat data
| ReceiveTimerExpires
| AppMessageTimerExpires
| ShareCloudFile FileMetadata
| TypeShareRoom string
| StartShare

text \<open>The page shows the room input and the Start Share button of the share section
  under this condition.\<close>

definition shareTargetShown :: "render \<Rightarrow> bool" where
  "shareTargetShown r \<longleftrightarrow>
     itemToShare r \<noteq> None
     \<and> (shareFlowStep r = awaiting_room_id \<or> shareFlowStep r = idle
          \<or> shareFlowStep r = p2p_direct_transfer_failed_offer_r2 \<or> shareFlowStep r = share_failed)"

text \<open>
  The handler of an event. A user's event runs the handler of the latest render, if the
  control is enabled there (the \<open>disabled\<close> attributes of the page); a service's event
  runs the callback the service was built with.
\<close>

definition handle :: "codec \<Rightarrow> event \<Rightarrow> app \<Rightarrow> app" where
  "handle c ev s =
     (case ev of
        TypeRoomId v \<Rightarrow>
          if manualP2PConnectionStatus s = connecting \<or> manualP2PConnectionStatus s = connected
          then s else s\<lparr>manualP2PRoomIdInput := v\<rparr>
      | StartManualP2P isInitiator \<Rightarrow>
          if manualP2PRoomIdInput s = [] \<or> manualP2PConnectionStatus s = connecting
             \<or> manualP2PConnectionStatus s = connected
          then s else startManualP2P isInitiator (snapshot s) s
      | PeerConnects service \<Rightarrow>
          (case builtWith s service of None \<Rightarrow> s | Some r \<Rightarrow> manualOnConnect r s)
      | ServiceErrors service message \<Rightarrow>
          (case builtWith s service of None \<Rightarrow> s | Some r \<Rightarrow> manualOnError service r message s)
      | PeerCloses service \<Rightarrow>
          (case builtWith s service of None \<Rightarrow> s | Some r \<Rightarrow> manualOnClose service r s)
      | DataArrives service d \<Rightarrow>
          (case builtWith s service of
             None \<Rightarrow> s
           | Some r \<Rightarrow> commonP2POnDataHandler c d manual r s)
      | ReceiveTimerExpires \<Rightarrow> receiveTimeoutFires s
      | AppMessageTimerExpires \<Rightarrow> appMessageTimeoutFires s
      | ShareCloudFile m \<Rightarrow>
          if shareFlowStep s \<noteq> idle then s else snd (initiateShareProcess (CloudFile m) s)
      | TypeShareRoom v \<Rightarrow>
          if shareTargetShown (snapshot s) \<and> shareFlowStep s \<noteq> p2p_direct_transfer_failed_offer_r2
          then s\<lparr>shareTargetRoomIdInput := v\<rparr> else s
      | StartShare \<Rightarrow>
          if shareTargetShown (snapshot s) \<and> trim (shareTargetRoomIdInput s) \<noteq> []
          then snd (executeShareAttempt (itemToShare s) (shareTargetRoomIdInput s) (snapshot s) s)
          else s)"

text \<open>
  The cleanups of the two effects, after a render that follows render \<open>previous\<close>: when
  \<open>manualP2PService\<close> has changed, the service of the previous render is destroyed; when
  \<open>shareP2PServiceInstance\<close> has changed, that of the previous render is destroyed and the
  three timers are cleared.
\<close>

definition effectCleanups :: "render \<Rightarrow> app \<Rightarrow> app" where
  "effectCleanups previous s =
     (let s1 = (if manualP2PService s = manualP2PService previous then s
                else case manualP2PService previous of
                       None \<Rightarrow> s
                     | Some service \<Rightarrow> s\<lparr>effects := effects s @ [ServiceDestroy service]\<rparr>)
      in if shareP2PServiceInstance s1 = shareP2PServiceInstance previous then s1
         else (case shareP2PServiceInstance previous of
                 None \<Rightarrow> s1
               | Some service \<Rightarrow> s1\<lparr>effects := effects s1 @ [ServiceDestroy service]\<rparr>)
              \<lparr>shareP2PTimeoutIdRef := None, p2pReceiveTimeoutIdRef := None,
               appMessageTimeoutRef := None\<rparr>)"

text \<open>One event: its handler, then the render it causes.\<close>

definition step :: "codec \<Rightarrow> event \<Rightarrow> app \<Rightarrow> app" where
  "step c ev s = effectCleanups (snapshot s) (handle c ev s)"

fun runAll :: "codec \<Rightarrow> event list \<Rightarrow> app \<Rightarrow> app" where
  "runAll c [] s = s"
| "runAll c (ev # evs) s = runAll c evs (step c ev s)"


section \<open>The signaling relay\<close>

text \<open>
  A server-side WebSocket is a handle. The relay's state: the \<open>sessions\<close> array of the room
  object of each name (\<open>idFromName\<close>), the ready state of each socket, the next unused
  handle, and the console.
\<close>

datatype relayLog =
  LogNewConnection nat
| LogSendError string
| LogSessionRemoved nat
| LogNotConfigured
| LogRouteError string string

record relay =
  sessions :: "string \<Rightarrow> nat list"
  readyStateOf :: "nat \<Rightarrow> readyState"
  nextSocket :: nat
  relayConsole :: "relayLog list"

text \<open>Of a request: the segment of its path after \<open>/ws/signaling/\<close>, if the path has
  that form with something after the last slash, and the \<open>Upgrade\<close> header.\<close>

record Request =
  req_roomId :: "string option"
  req_upgrade :: "string option"

text \<open>Of a response: status, body, and the client end of the socket pair, named by the
  handle of its server end.\<close>

record Response =
  status :: nat
  body :: string
  webSocket :: "nat option"

definition SignalingRoom_fetch :: "string \<Rightarrow> Request \<Rightarrow> relay \<Rightarrow> Response \<times> relay" where
  "SignalingRoom_fetch room request r =
     (if req_upgrade request = None \<or> req_upgrade request \<noteq> Some ''websocket'' then
        (\<lparr>status = 426, body = ''Expected Upgrade: websocket'', webSocket = None\<rparr>, r)
      else
        (let server = nextSocket r;
             sessions' = sessions r room @ [server]
         in (\<lparr>status = 101, body = [], webSocket = Some server\<rparr>,
             r\<lparr>nextSocket := server + 1,
               readyStateOf := (readyStateOf r)(server := OPEN),
               sessions := (sessions r)(room := sessions'),
               relayConsole := relayConsole r @ [LogNewConnection (length sessions')]\<rparr>)))"

text \<open>What one message event puts out: a message passed to a socket's \<open>send\<close>, or the
  logged message of the error that \<open>send\<close> threw.\<close>

datatype 'm relayOut = Delivered nat 'm | SendFailed string

text \<open>
  The \<open>forEach\<close> of the message listener of socket \<open>server\<close>. Whether \<open>session.send\<close>
  throws is for the runtime to say: \<open>sendThrows session\<close> is the message of the error, if
  any.
\<close>

fun forEachSession :: "(nat \<Rightarrow> readyState) \<Rightarrow> (nat \<Rightarrow> string option) \<Rightarrow> nat \<Rightarrow> 'm \<Rightarrow> nat list
    \<Rightarrow> 'm relayOut list" where
  "forEachSession rs sendThrows server messageData [] = []"
| "forEachSession rs sendThrows server messageData (session # rest) =
     (if session \<noteq> server \<and> rs session = OPEN then
        (case sendThrows session of
           None \<Rightarrow> [Delivered session messageData]
         | Some e \<Rightarrow> [SendFailed e])
      else [])
     @ forEachSession rs sendThrows server messageData rest"

definition onSocketMessage :: "(nat \<Rightarrow> string option) \<Rightarrow> string \<Rightarrow> nat \<Rightarrow> 'm \<Rightarrow> relay
    \<Rightarrow> 'm relayOut list" where
  "onSocketMessage sendThrows room server messageData r =
     forEachSession (readyStateOf r) sendThrows server messageData (sessions r room)"

fun deliveries :: "'m relayOut list \<Rightarrow> (nat \<times> 'm) list" where
  "deliveries [] = []"
| "deliveries (Delivered t m # os) = (t, m) # deliveries os"
| "deliveries (SendFailed e # os) = deliveries os"

fun sendErrors :: "'m relayOut list \<Rightarrow> string list" where
  "sendErrors [] = []"
| "sendErrors (Delivered t m # os) = sendErrors os"
| "sendErrors (SendFailed e # os) = e # sendErrors os"

definition closeOrErrorHandler :: "string \<Rightarrow> nat \<Rightarrow> relay \<Rightarrow> relay" where
  "closeOrErrorHandler room server r =
     (let sessions' = filter (\<lambda>session. session \<noteq> server) (sessions r room)
      in r\<lparr>sessions := (sessions r)(room := sessions'),
           relayConsole := relayConsole r @ [LogSessionRemoved (length sessions')]\<rparr>)"

text \<open>
  The worker's environment, as far as the route reads it: whether the binding
  \<open>SIGNALING_ROOM_DO\<close> is there, and whether forwarding the request to the room object
  (\<open>idFromName\<close>, \<open>get\<close>, \<open>stub.fetch\<close>) throws, with the message of the error. The
  platform decides the latter: it is a parameter.
\<close>

record Env =
  SIGNALING_ROOM_DO :: bool
  stubFetchThrows :: "string option"

text \<open>The handler of the route \<open>/ws/signaling/:roomId\<close>, called with the path parameter.\<close>

definition signalingRoute :: "Env \<Rightarrow> string \<Rightarrow> Request \<Rightarrow> relay \<Rightarrow> Response \<times> relay" where
  "signalingRoute env roomId request r =
     (if roomId = [] then
        (\<lparr>status = 400, body = ''Missing roomId parameter'', webSocket = None\<rparr>, r)
      else if \<not> SIGNALING_ROOM_DO env then
        (\<lparr>status = 500, body = ''Signaling service not configured.'', webSocket = None\<rparr>,
         r\<lparr>relayConsole := relayConsole r @ [LogNotConfigured]\<rparr>)
      else
        (case stubFetchThrows env of
           Some e \<Rightarrow>
             (\<lparr>status = 500, body = ''Error connecting to signaling room.'', webSocket = None\<rparr>,
              r\<lparr>relayConsole := relayConsole r @ [LogRouteError roomId e]\<rparr>)
         | None \<Rightarrow> SignalingRoom_fetch roomId request r))"

text \<open>
  The endpoint: \<open>app.get('/ws/signaling/:roomId', ...)\<close> registers the handler for paths
  that have a segment after \<open>/ws/signaling/\<close>. A request whose path has none matches no
  route of the worker, and the router answers it with its own 404.
\<close>

definition signalingEndpoint :: "Env \<Rightarrow> Request \<Rightarrow> relay \<Rightarrow> Response \<times> relay" where
  "signalingEndpoint env request r =
     (case req_roomId request of
        None \<Rightarrow> (\<lparr>status = 404, body = ''404 Not Found'', webSocket = None\<rparr>, r)
      | Some roomId \<Rightarrow> signalingRoute env roomId request r)"

section \<open>Concrete inputs\<close>

text \<open>The state of \<open>App\<close> at its first render: the initial values of its state variables
  and refs.\<close>

definition initialApp :: app where
  "initialApp =
     \<lparr>manualP2PService = None, manualP2PRoomIdInput = [], manualP2PCurrentRoomId = None,
      manualP2PConnectionStatus = disconnected, manualP2PReceivedMessages = [],
      p2pFileTransferProgress = None, p2pReceivingFileMeta = None, p2pReceivedFileChunks = [],
      overallAppMessage = None, isDownloadingR2 = False,
      itemToShare = None, shareTargetRoomIdInput = [], shareFlowStep = idle,
      shareP2PServiceInstance = None,
      appMessageTimeoutRef = None, p2pReceiveTimeoutIdRef = None, shareP2PTimeoutIdRef = None,
      nextService = 0, builtWith = (\<lambda>service. None), effects = []\<rparr>"

text \<open>A codec that stores: it only stands in for pako where a concrete codec is needed.\<close>

definition storing :: codec where
  "storing = \<lparr>deflate = Inr, inflate = Inr\<rparr>"

text \<open>A codec that reverses: a stand-in whose output differs from its input.\<close>

definition reversing :: codec where
  "reversing = \<lparr>deflate = (\<lambda>b. Inr (rev b)), inflate = (\<lambda>b. Inr (rev b))\<rparr>"

definition notesMeta :: P2PFileMeta where
  "notesMeta = \<lparr>meta_name = ''notes.txt'', meta_size = 3, meta_type = ''text/plain'',
            meta_isCompressed = False\<rparr>"

definition otherMeta :: P2PFileMeta where
  "otherMeta = \<lparr>meta_name = ''other.txt'', meta_size = 4, meta_type = ''text/plain'',
            meta_isCompressed = False\<rparr>"

text \<open>A file of three bytes whose name ends in \<open>.gz\<close>, so that it is sent as it is.\<close>

definition memo :: File where
  "memo = \<lparr>file_name = ''notes.gz'', file_type = ''application/gzip'',
           file_arrayBuffer = Inr [1, 2, 3]\<rparr>"

definition memoMeta :: P2PFileMeta where
  "memoMeta = \<lparr>meta_name = ''notes.gz'', meta_size = 3, meta_type = ''application/gzip'',
            meta_isCompressed = False\<rparr>"

text \<open>A text file, which the policy compresses.\<close>

definition letter :: File where
  "letter = \<lparr>file_name = ''letter.txt'', file_type = ''text/plain'',
             file_arrayBuffer = Inr [1, 2, 3]\<rparr>"

definition connectedService :: P2PService where
  "connectedService = \<lparr>peer = Some True, ws = Some OPEN\<rparr>"

text \<open>Libraries whose \<open>destroy\<close> and \<open>close\<close> do not throw.\<close>

definition quiet :: library where
  "quiet = \<lparr>peerDestroyThrows = (\<lambda>isConnected. None), wsCloseThrows = (\<lambda>state. None)\<rparr>"


definition photo :: File where
  "photo = \<lparr>file_name = ''photo.jpg'', file_type = ''image/jpeg'',
            file_arrayBuffer = Inr (replicate 200000 0)\<rparr>"

text \<open>
  A first join: the user types a room id and presses Join, and the peer connects. The
  callbacks of service 0 are closures of the render in which Join was pressed.
\<close>

definition firstJoin :: app where
  "firstJoin = runAll storing [TypeRoomId ''lobby'', StartManualP2P False, PeerConnects 0] initialApp"

text \<open>
  Joining again: the signaling socket of the connected service reports an error, the user
  presses Join, the destroyed peer closes, and the peer of the new service connects.
\<close>

definition rejoin :: "nat \<Rightarrow> event list" where
  "rejoin service =
     [ServiceErrors service ''WebSocket connection error'', StartManualP2P False,
      PeerCloses service, PeerConnects (service + 1)]"

definition secondJoin :: app where
  "secondJoin = runAll storing (rejoin 0) firstJoin"

text \<open>A third join, made after the descriptor of \<open>notes.gz\<close> has arrived on service 1.\<close>

definition thirdJoin :: app where
  "thirdJoin = runAll storing (DataArrives 1 (Json (FileMeta memoMeta)) # rejoin 1) secondJoin"

text \<open>A fourth join, made after the descriptor of \<open>other.txt\<close> and two of its bytes have
  arrived on service 2.\<close>

definition fourthJoin :: app where
  "fourthJoin =
     runAll storing
       (DataArrives 2 (Json (FileMeta otherMeta)) # DataArrives 2 (Binary [1, 2]) # rejoin 2)
       thirdJoin"


definition configured :: Env where
  "configured = \<lparr>SIGNALING_ROOM_DO = True, stubFetchThrows = None\<rparr>"

text \<open>An environment in which the room object cannot be reached.\<close>

definition unreachable :: Env where
  "unreachable = \<lparr>SIGNALING_ROOM_DO = True, stubFetchThrows = Some ''Network connection lost.''\<rparr>"

definition upgradeRequest :: Request where
  "upgradeRequest = \<lparr>req_roomId = Some ''lobby'', req_upgrade = Some ''websocket''\<rparr>"

definition plainRequest :: Request where
  "plainRequest = \<lparr>req_roomId = Some ''lobby'', req_upgrade = None\<rparr>"

definition noRoomRequest :: Request where
  "noRoomRequest = \<lparr>req_roomId = None, req_upgrade = Some ''websocket''\<rparr>"

definition emptyRelay :: relay where
  "emptyRelay = \<lparr>sessions = (\<lambda>room. []), readyStateOf = (\<lambda>socket. CONNECTING), nextSocket = 0,
                 relayConsole = []\<rparr>"

text \<open>A room of four sessions, the last one closed.\<close>

definition lobby :: relay where
  "lobby = \<lparr>sessions = (\<lambda>room. if room = ''lobby'' then [0, 1, 2, 3] else []),
            readyStateOf = (\<lambda>socket. if socket = 3 then CLOSED else OPEN),
            nextSocket = 4, relayConsole = []\<rparr>"

section \<open>Properties\<close>

subsection \<open>The sender's loop\<close>

lemma sendChunks_step:
  "offset < length fileData \<Longrightarrow>
   sendChunks fname fileData offset =
     [Send (Binary (arrayBufferSlice fileData offset (offset + CHUNK_SIZE))),
      OnProgress (roundPercent (int (offset + length (arrayBufferSlice fileData offset (offset + CHUNK_SIZE))))
                    (int (length fileData))) None,
      UpdateSendProgress fname
        (roundPercent (int (offset + length (arrayBufferSlice fileData offset (offset + CHUNK_SIZE))))
           (int (length fileData)))]
     @ sendChunks fname fileData (offset + length (arrayBufferSlice fileData offset (offset + CHUNK_SIZE)))"
  by (subst sendChunks.simps) (simp add: Let_def)

lemma sendChunks_done:
  "\<not> offset < length fileData \<Longrightarrow> sendChunks fname fileData offset = []"
  by (subst sendChunks.simps) simp


lemma bitLength_numeral:
  "bitLength 0 = 0"
  "bitLength (Suc 0) = Suc 0"
  "bitLength (numeral k) = Suc (bitLength (numeral k div 2))"
  by (subst bitLength.simps, simp add: bitLength.simps [of 0])+

lemmas double_defs =
  roundPercent_def nearestDouble_def roundHalfEven_def bitLength_numeral Let_def

lemma take_drop_length: "take n xs @ drop (length (take n xs)) xs = xs"
  by (simp add: min_def)

lemma slice_piece:
  "arrayBufferSlice d off (off + C) @ drop (off + length (arrayBufferSlice d off (off + C))) d
   = drop off d"
proof -
  have a: "arrayBufferSlice d off (off + C) = take C (drop off d)"
    by (simp add: arrayBufferSlice_def)
  have b: "drop (off + length (take C (drop off d))) d
           = drop (length (take C (drop off d))) (drop off d)"
    by (simp only: drop_drop add.commute)
  show ?thesis by (simp only: a b take_drop_length)
qed

lemma slice_length: "length (arrayBufferSlice d off (off + C)) \<le> C"
  by (simp add: arrayBufferSlice_def)


lemma sendChunks_binaries:
  "sends (sendChunks f d off) = map Binary (binaries (sends (sendChunks f d off)))
   \<and> concat (binaries (sends (sendChunks f d off))) = drop off d
   \<and> (\<forall>b \<in> set (binaries (sends (sendChunks f d off))). length b \<le> CHUNK_SIZE)"
proof (induction f d off rule: sendChunks.induct)
  case (1 fname fileData offset)
  show ?case
  proof (cases "offset < length fileData")
    case False
    then show ?thesis by (simp add: sendChunks_done)
  next
    case True
    note IH = "1.IH" [OF True refl refl refl]
    show ?thesis
      using IH
      by (simp add: sendChunks_step [OF True] slice_piece slice_length)
  qed
qed


lemma sends_performP2PSendAndUpdateState:
  assumes "prepareData c file = Inr (fileData, compressed)"
  shows "sends (performP2PSendAndUpdateState c file) =
     Json (FileMeta \<lparr>meta_name = file_name file, meta_size = int (length fileData),
                     meta_type = (if file_type file = [] then ''application/octet-stream''
                                  else file_type file),
                     meta_isCompressed = compressed\<rparr>)
     # map Binary (binaries (sends (sendChunks (file_name file) fileData 0)))
     @ [Json (FileEnd (file_name file))]"
proof -
  have app: "sends (xs @ ys) = sends xs @ sends ys" for xs ys
    by (induction xs rule: sends.induct) simp_all
  have chunks: "sends (sendChunks (file_name file) fileData 0)
      = map Binary (binaries (sends (sendChunks (file_name file) fileData 0)))"
    using sendChunks_binaries [of "file_name file" fileData 0] by blast
  show ?thesis
    unfolding performP2PSendAndUpdateState_def assms
    by (simp add: app flip: chunks)
qed


subsection \<open>The compression policy\<close>

lemma endsWith_iff: "endsWith s suffix \<longleftrightarrow> (\<exists>p. s = p @ suffix)"
proof
  assume "endsWith s suffix"
  then have "s = take (length s - length suffix) s @ suffix"
    by (metis append_take_drop_id endsWith_def)
  then show "\<exists>p. s = p @ suffix" ..
next
  assume "\<exists>p. s = p @ suffix"
  then show "endsWith s suffix" by (auto simp: endsWith_def)
qed

lemma set_alreadyCompressedTypes:
  "set alreadyCompressedTypes =
     {''image/jpeg'', ''image/png'', ''image/gif'', ''video/mp4'',
      ''application/zip'', ''application/gzip'', ''application/pdf''}"
  unfolding alreadyCompressedTypes_def by (simp only: set_simps)

text \<open>
  Claim C7. Let the content of the file be \<open>B\<close>, and let the codec give \<open>Z\<close> for it
  whenever the sender calls it. The sender compresses exactly when the declared type is
  none of the seven listed types and the file name ends in none of \<open>.gz\<close>, \<open>.zip\<close>,
  \<open>.rar\<close>: in that case the payload it prepares, announces in \<open>file-meta\<close> (with its
  length and \<open>isCompressed\<close> set) and sends in chunks is \<open>Z\<close>, and otherwise it is \<open>B\<close>
  itself, announced with \<open>isCompressed\<close> unset. The decision is the same for every
  content of the file.
\<close>

theorem sender_compression_policy:
  assumes content: "file_arrayBuffer file = Inr B"
    and codec: "shouldCompress file \<Longrightarrow> deflate c B = Inr Z"
  shows "(shouldCompress file \<longleftrightarrow>
            file_type file \<notin> {''image/jpeg'', ''image/png'', ''image/gif'', ''video/mp4'',
                                ''application/zip'', ''application/gzip'', ''application/pdf''}
            \<and> \<not> (\<exists>p. file_name file = p @ ''.gz'')
            \<and> \<not> (\<exists>p. file_name file = p @ ''.zip'')
            \<and> \<not> (\<exists>p. file_name file = p @ ''.rar''))
    \<and> prepareData c file = Inr (if shouldCompress file then Z else B, shouldCompress file)
    \<and> (\<exists>chunks.
          sends (performP2PSendAndUpdateState c file) =
            Json (FileMeta \<lparr>meta_name = file_name file,
                            meta_size = int (length (if shouldCompress file then Z else B)),
                            meta_type = (if file_type file = [] then ''application/octet-stream''
                                         else file_type file),
                            meta_isCompressed = shouldCompress file\<rparr>)
            # map Binary chunks @ [Json (FileEnd (file_name file))]
          \<and> concat chunks = (if shouldCompress file then Z else B))
    \<and> shouldCompress (file\<lparr>file_arrayBuffer := other\<rparr>) = shouldCompress file"
proof -
  have policy: "shouldCompress file \<longleftrightarrow>
      file_type file \<notin> {''image/jpeg'', ''image/png'', ''image/gif'', ''video/mp4'',
                          ''application/zip'', ''application/gzip'', ''application/pdf''}
      \<and> \<not> (\<exists>p. file_name file = p @ ''.gz'')
      \<and> \<not> (\<exists>p. file_name file = p @ ''.zip'')
      \<and> \<not> (\<exists>p. file_name file = p @ ''.rar'')"
    unfolding shouldCompress_def endsWith_iff set_alreadyCompressedTypes
    by (simp only: if_False if_True split: if_split) blast
  have prepared:
    "prepareData c file = Inr (if shouldCompress file then Z else B, shouldCompress file)"
  proof (cases "shouldCompress file")
    case True
    with codec have "deflate c B = Inr Z" by simp
    with True content show ?thesis by (simp add: prepareData_def)
  next
    case False
    with content show ?thesis by (simp add: prepareData_def)
  qed
  define payload where "payload = (if shouldCompress file then Z else B)"
  define chunks where "chunks = binaries (sends (sendChunks (file_name file) payload 0))"
  have whole: "concat chunks = payload"
    using sendChunks_binaries [of "file_name file" payload 0] by (simp add: chunks_def)
  have frames: "sends (performP2PSendAndUpdateState c file) =
      Json (FileMeta \<lparr>meta_name = file_name file, meta_size = int (length payload),
                      meta_type = (if file_type file = [] then ''application/octet-stream''
                                   else file_type file),
                      meta_isCompressed = shouldCompress file\<rparr>)
      # map Binary chunks @ [Json (FileEnd (file_name file))]"
    using sends_performP2PSendAndUpdateState [of c "file" payload "shouldCompress file"] prepared
    by (simp add: payload_def chunks_def)
  have sent: "\<exists>chunks.
      sends (performP2PSendAndUpdateState c file) =
        Json (FileMeta \<lparr>meta_name = file_name file,
                        meta_size = int (length (if shouldCompress file then Z else B)),
                        meta_type = (if file_type file = [] then ''application/octet-stream''
                                     else file_type file),
                        meta_isCompressed = shouldCompress file\<rparr>)
        # map Binary chunks @ [Json (FileEnd (file_name file))]
      \<and> concat chunks = (if shouldCompress file then Z else B)"
    using frames whole unfolding payload_def by blast
  have same: "shouldCompress (file\<lparr>file_arrayBuffer := other\<rparr>) = shouldCompress file"
    by (simp add: shouldCompress_def)
  from policy prepared sent same show ?thesis by blast
qed

theorem sender_compression_policy_witness:
  "prepareData reversing letter = Inr ([3, 2, 1], True)
   \<and> prepareData reversing memo = Inr ([1, 2, 3], False)"
proof -
  have compressed: "shouldCompress letter"
    by (simp add: shouldCompress_def letter_def endsWith_def alreadyCompressedTypes_def)
  have plain: "\<not> shouldCompress memo"
    by (simp add: shouldCompress_def memo_def endsWith_def)
  have a: "prepareData reversing letter = Inr (if shouldCompress letter then [3, 2, 1] else [1, 2, 3], shouldCompress letter)"
    using sender_compression_policy [of letter "[1, 2, 3]" reversing "[3, 2, 1]"]
    by (simp add: letter_def reversing_def)
  have b: "prepareData reversing memo = Inr (if shouldCompress memo then [3, 2, 1] else [1, 2, 3], shouldCompress memo)"
    using sender_compression_policy [of memo "[1, 2, 3]" reversing "[3, 2, 1]"]
    by (simp add: memo_def reversing_def)
  from a b compressed plain show ?thesis by simp
qed

subsection \<open>The sender on 200,000 bytes\<close>

lemma wire_connected:
  assumes "peer svc = Some True"
  shows "wire svc evs = sends evs"
proof -
  have "concat (map (\<lambda>d. onWire (P2PService_send d svc)) ds) = ds" for ds
    using assms by (induction ds) (simp_all add: P2PService_send_def)
  then show ?thesis by (simp add: wire_def)
qed

lemma sendChunks_200000:
  assumes "length B = 200000"
  shows "sendChunks f B 0 =
    [Send (Binary (take 65536 B)), OnProgress 33 None, UpdateSendProgress f 33,
     Send (Binary (take 65536 (drop 65536 B))), OnProgress 66 None, UpdateSendProgress f 66,
     Send (Binary (take 65536 (drop 131072 B))), OnProgress 98 None, UpdateSendProgress f 98,
     Send (Binary (drop 196608 B)), OnProgress 100 None, UpdateSendProgress f 100]"
  using assms
  by (simp add: sendChunks_step sendChunks_done arrayBufferSlice_def CHUNK_SIZE_def double_defs)

lemma split_four:
  "take 65536 B @ take 65536 (drop 65536 B) @ take 65536 (drop 131072 B) @ drop 196608 B = B"
proof -
  have a: "take 65536 (drop 131072 B) @ drop 65536 (drop 131072 B) = drop 131072 B"
    by (rule append_take_drop_id)
  have b: "take 65536 (drop 65536 B) @ drop 65536 (drop 65536 B) = drop 65536 B"
    by (rule append_take_drop_id)
  have c: "take 65536 B @ drop 65536 B = B"
    by (rule append_take_drop_id)
  have d: "drop 65536 (drop 131072 B) = drop 196608 B" "drop 65536 (drop 65536 B) = drop 131072 B"
    by (simp_all only: drop_drop) simp_all
  from a b c d show ?thesis by metis
qed

text \<open>
  Claim C4. For a file of a type in the incompressible list whose content is 200,000
  bytes, the sender does exactly this, in this order: one \<open>file-meta\<close> frame, four chunks
  of 65536, 65536, 65536 and 3392 bytes that are the consecutive pieces of the content,
  each followed by its report (33, 66, 98, 100), then one \<open>file-end\<close> frame and
  \<open>onComplete\<close>. On a connected service these six frames are what goes on the wire.
\<close>

theorem send_200000_bytes:
  assumes incompressible: "file_type file \<in> set alreadyCompressedTypes"
    and content: "file_arrayBuffer file = Inr B"
    and size: "length B = 200000"
    and connected: "peer svc = Some True"
  shows "performP2PSendAndUpdateState c file =
      [SetSendProgress (file_name file) 0,
       OnProgress 0 (Some (''Preparing to send '' @ file_name file @ '' via P2P...'')),
       Send (Json (FileMeta \<lparr>meta_name = file_name file, meta_size = 200000,
                             meta_type = file_type file, meta_isCompressed = False\<rparr>)),
       OnProgress 0 (Some (''Sending metadata for '' @ file_name file @ ''...'')),
       OnProgress 0 (Some (''Sending '' @ file_name file @ '' in chunks...'')),
       Send (Binary (take 65536 B)), OnProgress 33 None,
       UpdateSendProgress (file_name file) 33,
       Send (Binary (take 65536 (drop 65536 B))), OnProgress 66 None,
       UpdateSendProgress (file_name file) 66,
       Send (Binary (take 65536 (drop 131072 B))), OnProgress 98 None,
       UpdateSendProgress (file_name file) 98,
       Send (Binary (drop 196608 B)), OnProgress 100 None,
       UpdateSendProgress (file_name file) 100,
       Send (Json (FileEnd (file_name file))), OnComplete]
    \<and> wire svc (performP2PSendAndUpdateState c file) =
        [Json (FileMeta \<lparr>meta_name = file_name file, meta_size = 200000,
                         meta_type = file_type file, meta_isCompressed = False\<rparr>),
         Binary (take 65536 B), Binary (take 65536 (drop 65536 B)),
         Binary (take 65536 (drop 131072 B)), Binary (drop 196608 B),
         Json (FileEnd (file_name file))]
    \<and> map length (binaries (wire svc (performP2PSendAndUpdateState c file)))
        = [65536, 65536, 65536, 3392]
    \<and> concat (binaries (wire svc (performP2PSendAndUpdateState c file))) = B
    \<and> chunkReports (performP2PSendAndUpdateState c file) = [33, 66, 98, 100]"
proof -
  from incompressible have no: "\<not> shouldCompress file"
    by (simp add: shouldCompress_def)
  from incompressible have ty: "file_type file \<noteq> []"
    by (auto simp: alreadyCompressedTypes_def)
  have run: "performP2PSendAndUpdateState c file =
      [SetSendProgress (file_name file) 0,
       OnProgress 0 (Some (''Preparing to send '' @ file_name file @ '' via P2P...'')),
       Send (Json (FileMeta \<lparr>meta_name = file_name file, meta_size = 200000,
                             meta_type = file_type file, meta_isCompressed = False\<rparr>)),
       OnProgress 0 (Some (''Sending metadata for '' @ file_name file @ ''...'')),
       OnProgress 0 (Some (''Sending '' @ file_name file @ '' in chunks...'')),
       Send (Binary (take 65536 B)), OnProgress 33 None,
       UpdateSendProgress (file_name file) 33,
       Send (Binary (take 65536 (drop 65536 B))), OnProgress 66 None,
       UpdateSendProgress (file_name file) 66,
       Send (Binary (take 65536 (drop 131072 B))), OnProgress 98 None,
       UpdateSendProgress (file_name file) 98,
       Send (Binary (drop 196608 B)), OnProgress 100 None,
       UpdateSendProgress (file_name file) 100,
       Send (Json (FileEnd (file_name file))), OnComplete]"
    by (simp add: performP2PSendAndUpdateState_def prepareData_def no ty content size
        sendChunks_200000 [OF size])
  have frames: "wire svc (performP2PSendAndUpdateState c file) =
        [Json (FileMeta \<lparr>meta_name = file_name file, meta_size = 200000,
                         meta_type = file_type file, meta_isCompressed = False\<rparr>),
         Binary (take 65536 B), Binary (take 65536 (drop 65536 B)),
         Binary (take 65536 (drop 131072 B)), Binary (drop 196608 B),
         Json (FileEnd (file_name file))]"
    unfolding wire_connected [OF connected] by (simp add: run)
  have sizes: "map length (binaries (wire svc (performP2PSendAndUpdateState c file)))
        = [65536, 65536, 65536, 3392]"
    by (simp add: frames size)
  have whole: "concat (binaries (wire svc (performP2PSendAndUpdateState c file))) = B"
    by (simp add: frames split_four)
  have reports: "chunkReports (performP2PSendAndUpdateState c file) = [33, 66, 98, 100]"
    by (simp add: run)
  from run frames sizes whole reports show ?thesis by blast
qed

theorem send_200000_bytes_witness:
  "file_type photo \<in> set alreadyCompressedTypes
   \<and> file_arrayBuffer photo = Inr (replicate 200000 0)
   \<and> length (replicate 200000 (0::byte)) = 200000
   \<and> peer connectedService = Some True
   \<and> map length (binaries (wire connectedService (performP2PSendAndUpdateState storing photo)))
        = [65536, 65536, 65536, 3392]
   \<and> chunkReports (performP2PSendAndUpdateState storing photo) = [33, 66, 98, 100]"
proof -
  have h1: "file_type photo \<in> set alreadyCompressedTypes"
    by (simp add: photo_def alreadyCompressedTypes_def)
  have h2: "file_arrayBuffer photo = Inr (replicate 200000 0)"
    by (simp add: photo_def)
  have h3: "length (replicate 200000 (0::byte)) = 200000"
    by (rule length_replicate)
  have h4: "peer connectedService = Some True"
    by (simp add: connectedService_def)
  from send_200000_bytes [OF h1 h2 h3 h4, of storing] h1 h2 h3 h4 show ?thesis by blast
qed

subsection \<open>Destroying a transport\<close>

lemma closeSignaling_quiet:
  assumes "\<forall>state. wsCloseThrows lib state = None"
  shows "closeSignaling lib calls svc =
     (Returns, svc\<lparr>ws := None\<rparr>,
      calls @ (case ws svc of None \<Rightarrow> [] | Some state \<Rightarrow> [WsClose]))"
  using assms by (cases "ws svc") (simp_all add: closeSignaling_def)

text \<open>What an error in \<open>peer.destroy()\<close> leaves: the peer is kept and the socket is not
  closed.\<close>

lemma destroy_when_peer_throws:
  assumes "peer svc = Some isConnected" and "peerDestroyThrows lib isConnected = Some e"
  shows "P2PService_destroy lib svc =
     (Throws e, svc, [ConsoleLog ''P2PService: Destroying...'', PeerDestroy])"
  using assms by (simp add: P2PService_destroy_def)

text \<open>
  Claim C9. \<open>destroy()\<close> has no \<open>try\<close> of its own, so it throws what \<open>peer.destroy()\<close> or
  \<open>ws.close()\<close> throw. With libraries that do not throw there, in every state of a
  \<open>P2PService\<close> (peer and socket each present or not, connected or not, in any ready
  state) \<open>destroy()\<close> returns, leaves both \<open>peer\<close> and \<open>ws\<close> null after calling \<open>destroy\<close>
  on the peer and \<open>close\<close> on the socket if they were there, and a second call returns
  too, changes nothing and calls nothing but the console.
\<close>

theorem destroy_releases_and_is_idempotent:
  assumes peerQuiet: "\<forall>isConnected. peerDestroyThrows lib isConnected = None"
    and socketQuiet: "\<forall>state. wsCloseThrows lib state = None"
  shows "P2PService_destroy lib svc =
      (Returns, svc\<lparr>peer := None, ws := None\<rparr>,
       ConsoleLog ''P2PService: Destroying...'' #
       (case peer svc of None \<Rightarrow> [] | Some isConnected \<Rightarrow> [PeerDestroy]) @
       (case ws svc of None \<Rightarrow> [] | Some state \<Rightarrow> [WsClose]))
    \<and> P2PService_destroy lib (svc\<lparr>peer := None, ws := None\<rparr>) =
      (Returns, svc\<lparr>peer := None, ws := None\<rparr>, [ConsoleLog ''P2PService: Destroying...''])"
proof
  show "P2PService_destroy lib svc =
      (Returns, svc\<lparr>peer := None, ws := None\<rparr>,
       ConsoleLog ''P2PService: Destroying...'' #
       (case peer svc of None \<Rightarrow> [] | Some isConnected \<Rightarrow> [PeerDestroy]) @
       (case ws svc of None \<Rightarrow> [] | Some state \<Rightarrow> [WsClose]))"
  proof (cases "peer svc")
    case None
    then have "svc\<lparr>peer := None, ws := None\<rparr> = svc\<lparr>ws := None\<rparr>"
      by simp
    with None show ?thesis
      by (simp add: P2PService_destroy_def closeSignaling_quiet [OF socketQuiet])
  next
    case (Some isConnected)
    with peerQuiet show ?thesis
      by (simp add: P2PService_destroy_def closeSignaling_quiet [OF socketQuiet])
  qed
  show "P2PService_destroy lib (svc\<lparr>peer := None, ws := None\<rparr>) =
      (Returns, svc\<lparr>peer := None, ws := None\<rparr>, [ConsoleLog ''P2PService: Destroying...''])"
    by (simp add: P2PService_destroy_def closeSignaling_def)
qed

theorem destroy_releases_and_is_idempotent_witness:
  "P2PService_destroy quiet connectedService =
     (Returns, \<lparr>peer = None, ws = None\<rparr>,
      [ConsoleLog ''P2PService: Destroying...'', PeerDestroy, WsClose])
   \<and> P2PService_destroy quiet \<lparr>peer = None, ws = None\<rparr> =
     (Returns, \<lparr>peer = None, ws = None\<rparr>, [ConsoleLog ''P2PService: Destroying...''])"
proof -
  have a: "\<forall>isConnected. peerDestroyThrows quiet isConnected = None"
    by (simp add: quiet_def)
  have b: "\<forall>state. wsCloseThrows quiet state = None"
    by (simp add: quiet_def)
  from destroy_releases_and_is_idempotent [OF a b, of connectedService]
  show ?thesis by (simp add: connectedService_def)
qed

subsection \<open>The relay's fan-out\<close>

lemma forEachSession_deliveries:
  "deliveries (forEachSession rs sendThrows server m ss) =
     map (\<lambda>t. (t, m)) (filter (\<lambda>t. t \<noteq> server \<and> rs t = OPEN \<and> sendThrows t = None) ss)"
  by (induction ss) (auto split: option.splits)

lemma forEachSession_sendErrors:
  "sendErrors (forEachSession rs sendThrows server m ss) =
     map (\<lambda>t. the (sendThrows t))
       (filter (\<lambda>t. t \<noteq> server \<and> rs t = OPEN \<and> sendThrows t \<noteq> None) ss)"
  by (induction ss) (auto split: option.splits)

text \<open>
  Claim C6. A message that arrives on the socket \<open>server\<close> of a room is passed unchanged,
  in the order of registration, to the sockets of the room other than \<open>server\<close> that are
  OPEN and whose \<open>send\<close> does not throw: every such socket gets it, whatever happens at
  the others; nothing is passed to \<open>server\<close>; and a \<open>send\<close> that throws leaves only its
  message on the console.
\<close>

theorem relay_fan_out:
  "deliveries (onSocketMessage sendThrows room server m r) =
     map (\<lambda>t. (t, m))
       (filter (\<lambda>t. t \<noteq> server \<and> readyStateOf r t = OPEN \<and> sendThrows t = None)
          (sessions r room))
   \<and> (\<forall>t \<in> set (sessions r room).
         t \<noteq> server \<and> readyStateOf r t = OPEN \<and> sendThrows t = None
         \<longrightarrow> (t, m) \<in> set (deliveries (onSocketMessage sendThrows room server m r)))
   \<and> (\<forall>x. (server, x) \<notin> set (deliveries (onSocketMessage sendThrows room server m r)))
   \<and> sendErrors (onSocketMessage sendThrows room server m r) =
       map (\<lambda>t. the (sendThrows t))
         (filter (\<lambda>t. t \<noteq> server \<and> readyStateOf r t = OPEN \<and> sendThrows t \<noteq> None)
            (sessions r room))"
  unfolding onSocketMessage_def forEachSession_deliveries forEachSession_sendErrors
  by auto

theorem relay_fan_out_witness:
  "(1, ''offer'') \<in> set (deliveries (onSocketMessage
       (\<lambda>t. if t = 2 then Some ''closed'' else None) ''lobby'' 0 ''offer'' lobby))
   \<and> deliveries (onSocketMessage
       (\<lambda>t. if t = 2 then Some ''closed'' else None) ''lobby'' 0 ''offer''
       (lobby\<lparr>sessions := (sessions lobby)(''lobby'' := [0, 1, 2, 3, 4])\<rparr>))
     = [(1, ''offer''), (4, ''offer'')]"
  using relay_fan_out [of "\<lambda>t. if t = 2 then Some ''closed'' else None" "''lobby''" 0 "''offer''" lobby]
    relay_fan_out [of "\<lambda>t. if t = 2 then Some ''closed'' else None" "''lobby''" 0 "''offer''"
      "lobby\<lparr>sessions := (sessions lobby)(''lobby'' := [0, 1, 2, 3, 4])\<rparr>"]
  by (simp add: lobby_def)

subsection \<open>The relay's endpoint\<close>

text \<open>
  Claim C8, as the code has it. A request without a room id in its path gets a client
  error (404 from the router; the handler's own guard would answer 400 to an empty id).
  With a room id, the answer is a server error, 500, if the binding is missing or
  forwarding to the room object fails; otherwise it is the client error 426 if the
  request is not a websocket upgrade, and 101 if it is. Only with 101 is a session
  registered, and then in the room the path names.
\<close>

theorem signaling_endpoint_responses:
  "status (fst (signalingEndpoint env request r)) =
     (if req_roomId request = None then 404
      else if req_roomId request = Some [] then 400
      else if \<not> SIGNALING_ROOM_DO env \<or> stubFetchThrows env \<noteq> None then 500
      else if req_upgrade request \<noteq> Some ''websocket'' then 426
      else 101)
   \<and> (status (fst (signalingEndpoint env request r)) \<noteq> 101 \<longrightarrow>
        sessions (snd (signalingEndpoint env request r)) = sessions r
        \<and> readyStateOf (snd (signalingEndpoint env request r)) = readyStateOf r
        \<and> webSocket (fst (signalingEndpoint env request r)) = None)
   \<and> (status (fst (signalingEndpoint env request r)) = 101 \<longrightarrow>
        (\<exists>roomId. req_roomId request = Some roomId
           \<and> sessions (snd (signalingEndpoint env request r))
               = (sessions r)(roomId := sessions r roomId @ [nextSocket r])
           \<and> readyStateOf (snd (signalingEndpoint env request r)) (nextSocket r) = OPEN
           \<and> webSocket (fst (signalingEndpoint env request r)) = Some (nextSocket r)))"
  by (auto simp: signalingEndpoint_def signalingRoute_def SignalingRoom_fetch_def Let_def
      split: option.splits)

theorem signaling_endpoint_responses_witness:
  "status (fst (signalingEndpoint configured upgradeRequest emptyRelay)) = 101
   \<and> sessions (snd (signalingEndpoint configured upgradeRequest emptyRelay)) ''lobby'' = [0]
   \<and> status (fst (signalingEndpoint configured plainRequest emptyRelay)) = 426
   \<and> sessions (snd (signalingEndpoint configured plainRequest emptyRelay)) ''lobby'' = []
   \<and> status (fst (signalingEndpoint configured noRoomRequest emptyRelay)) = 404"
proof -
  note a = signaling_endpoint_responses [of configured upgradeRequest emptyRelay]
  note b = signaling_endpoint_responses [of configured plainRequest emptyRelay]
  note n = signaling_endpoint_responses [of configured noRoomRequest emptyRelay]
  have a1: "status (fst (signalingEndpoint configured upgradeRequest emptyRelay)) = 101"
    using a by (simp add: configured_def upgradeRequest_def)
  have b1: "status (fst (signalingEndpoint configured plainRequest emptyRelay)) = 426"
    using b by (simp add: configured_def plainRequest_def)
  have n1: "status (fst (signalingEndpoint configured noRoomRequest emptyRelay)) = 404"
    using n by (simp add: noRoomRequest_def)
  have a2: "sessions (snd (signalingEndpoint configured upgradeRequest emptyRelay)) ''lobby'' = [0]"
    using a a1 by (auto simp: upgradeRequest_def emptyRelay_def)
  have b2: "sessions (snd (signalingEndpoint configured plainRequest emptyRelay)) ''lobby'' = []"
    using b b1 by (auto simp: emptyRelay_def)
  from a1 a2 b1 b2 n1 show ?thesis by (simp only: simp_thms)
qed

text \<open>
  Against claim C8 as stated: when the room object cannot be reached, an upgrade request
  that names a room is answered 500, not 101, and a request that is not an upgrade is
  answered 500 as well, which is not a client error.
\<close>

theorem signaling_endpoint_unreachable_counterexample:
  "status (fst (signalingEndpoint unreachable upgradeRequest emptyRelay)) = 500
   \<and> status (fst (signalingEndpoint unreachable plainRequest emptyRelay)) = 500"
  by (simp add: signalingEndpoint_def signalingRoute_def unreachable_def upgradeRequest_def
      plainRequest_def)

subsection \<open>Handlers as closures of a render\<close>

lemma trim_lobby: "trim ''lobby'' = ''lobby''"
  by (simp add: trim_def stripStart.simps whiteSpace_def)

lemmas client_defs =
  step_def handle_def effectCleanups_def snapshot_def startManualP2P_def manualOnConnect_def
  manualOnError_def manualOnClose_def commonP2POnDataHandler_def onMessage_def onChunk_def
  onFileMeta_def onFileEnd_def deliver_def resetP2PReceiveStates_def setAppMessageFx_def
  addLog_def currentP2PService_def orElse_def contextName_def mathRoundPercent_def
  receiveTimeoutFires_def appMessageTimeoutFires_def handleDownloadR2_def
  initiateShareProcess_def executeShareAttempt_def shareTargetShown_def referenceError_def
  P2P_RECEIVE_TIMEOUT_MS_def APP_MESSAGE_TIMEOUT_MS_def Let_def

lemmas scenario_defs =
  fourthJoin_def thirdJoin_def secondJoin_def firstJoin_def rejoin_def initialApp_def
  memoMeta_def otherMeta_def notesMeta_def trim_lobby


text \<open>Data that is neither a string nor an \<open>ArrayBuffer\<close> is written to the console and
  nothing else.\<close>

lemma unknown_data_only_logged:
  assumes "builtWith s service = Some r" and "manualP2PService r = Some known"
  shows "step c (DataArrives service UnknownData) s =
     s\<lparr>effects := effects s @ [Console ''P2P (manual): Received unknown data type:'']\<rparr>"
  using assms
  by (simp add: step_def handle_def commonP2POnDataHandler_def currentP2PService_def
      effectCleanups_def snapshot_def contextName_def)

text \<open>
  A service started from the page is built with the render of the click: its callbacks
  keep the service, the descriptor and the chunk list of the moment before
  \<open>startManualP2P\<close> replaced and reset them.
\<close>

lemma closure_of_a_join:
  assumes "trim (manualP2PRoomIdInput s) \<noteq> []"
    and "manualP2PRoomIdInput s \<noteq> []"
    and "manualP2PConnectionStatus s \<noteq> connecting"
    and "manualP2PConnectionStatus s \<noteq> connected"
  shows "builtWith (step c (StartManualP2P isInitiator) s) (nextService s) = Some (snapshot s)"
    and "manualP2PService (step c (StartManualP2P isInitiator) s) = Some (nextService s)"
    and "p2pReceivingFileMeta (step c (StartManualP2P isInitiator) s) = None"
    and "p2pReceivedFileChunks (step c (StartManualP2P isInitiator) s) = []"
  using assms
  by (simp_all add: step_def handle_def startManualP2P_def resetP2PReceiveStates_def
      setAppMessageFx_def effectCleanups_def snapshot_def Let_def split: option.splits)

text \<open>A chunk is handled with the descriptor and the chunk list of the handler's render,
  whatever the state holds.\<close>

lemma chunk_on_captured_descriptor:
  assumes "builtWith s service = Some r"
    and "manualP2PService r = Some known"
    and "p2pReceivingFileMeta r = Some active"
  shows "p2pReceivedFileChunks (step c (DataArrives service (Binary buf)) s)
           = p2pReceivedFileChunks r @ [buf]"
    and "effects (step c (DataArrives service (Binary buf)) s) = effects s"
    and "p2pReceiveTimeoutIdRef (step c (DataArrives service (Binary buf)) s) \<noteq> None"
  using assms
  by (simp_all add: step_def handle_def commonP2POnDataHandler_def currentP2PService_def
      onChunk_def effectCleanups_def snapshot_def Let_def)


lemma thirdJoin_closure:
  "\<exists>r. builtWith thirdJoin 2 = Some r \<and> manualP2PService r = Some 1
     \<and> p2pReceivingFileMeta r = Some memoMeta \<and> p2pReceivedFileChunks r = []"
  by (simp add: scenario_defs client_defs)

lemma fourthJoin_closure:
  "\<exists>r. builtWith fourthJoin 3 = Some r \<and> manualP2PService r = Some 2
     \<and> p2pReceivingFileMeta r = Some otherMeta \<and> p2pReceivedFileChunks r = [[1, 2]]"
  by (simp add: scenario_defs client_defs double_defs)




subsection \<open>Sending, then receiving\<close>


subsection \<open>Receive deadlines\<close>


subsection \<open>A new descriptor\<close>


subsection \<open>A chunk without a descriptor\<close>


subsection \<open>A pointer share that nobody joins\<close>

text \<open>The callback written for the connect timer reads the service instance of its
  render. For any other service it only forgets the timer.\<close>

lemma connectTimeoutCallback_other_service:
  assumes "shareP2PServiceInstance r \<noteq> Some service"
  shows "connectTimeoutCallback service r s = (Returns, s\<lparr>shareP2PTimeoutIdRef := None\<rparr>)"
  using assms by (simp add: connectTimeoutCallback_def)




end
